theory Spec2Isabelle
  imports Complex_Main "HOL-Library.Sublist"
begin

section \<open>JavaScript values\<close>

text \<open>
  The attributes the action reads from the remote responses are JavaScript primitives.
  Numbers that are attributes (\<open>pr_number\<close>, \<open>db_port\<close>) are whole numbers and are
  modelled as \<open>int\<close>; objects and arrays do not occur as attribute values.
\<close>

datatype jsval = JUndefined | JNull | JBool bool | JNum int | JStr string

text \<open>The truthiness test of \<open>if (value)\<close>.\<close>

fun truthy :: "jsval \<Rightarrow> bool" where
  "truthy JUndefined = False"
| "truthy JNull = False"
| "truthy (JBool b) = b"
| "truthy (JNum n) = (n \<noteq> 0)"
| "truthy (JStr s) = (s \<noteq> [])"

fun digits :: "nat \<Rightarrow> string" where
  "digits n = (if n < 10 then [''0123456789'' ! n]
               else digits (n div 10) @ [''0123456789'' ! (n mod 10)])"

declare digits.simps [simp del]

definition int_to_string :: "int \<Rightarrow> string" where
  "int_to_string n = (if n < 0 then CHR ''-'' # digits (nat (- n)) else digits (nat n))"

text \<open>
  \<open>value.toString()\<close> and the conversion inside a template literal. They agree on
  booleans, numbers and strings; the template literal also renders \<open>undefined\<close> and
  \<open>null\<close> (\<open>toString\<close> is only ever called on a truthy value).
\<close>

fun toString :: "jsval \<Rightarrow> string" where
  "toString JUndefined = ''undefined''"
| "toString JNull = ''null''"
| "toString (JBool b) = (if b then ''true'' else ''false'')"
| "toString (JNum n) = int_to_string n"
| "toString (JStr s) = s"

text \<open>
  The number \<open>Number(core.getInput("timeout"))\<close> yields: \<open>NaN\<close>, a finite value or an
  infinity. Finite values are exact rationals; the rounding of doubles is not modelled.
\<close>

datatype jsnum = NaN | Finite rat | PosInfinity | NegInfinity

text \<open>\<open>Number.isNaN\<close>.\<close>

fun isNaN :: "jsnum \<Rightarrow> bool" where
  "isNaN NaN = True"
| "isNaN _ = False"

text \<open>\<open>timeout * 1000\<close>.\<close>

fun times_1000 :: "jsnum \<Rightarrow> jsnum" where
  "times_1000 NaN = NaN"
| "times_1000 (Finite r) = Finite (r * 1000)"
| "times_1000 PosInfinity = PosInfinity"
| "times_1000 NegInfinity = NegInfinity"

text \<open>\<open>elapsed < x\<close> for a whole number of milliseconds \<open>elapsed\<close>.\<close>

fun js_less :: "int \<Rightarrow> jsnum \<Rightarrow> bool" where
  "js_less e NaN = False"
| "js_less e (Finite r) = (of_int e < r)"
| "js_less e PosInfinity = True"
| "js_less e NegInfinity = False"

section \<open>Remote data\<close>

text \<open>
  The response types of the API client. Their declarations live in the client library;
  the fields are the ones \<open>main\<close> reads. Every attribute read through a computed key is
  kept as a \<open>jsval\<close>, so that nothing is assumed about what the remote side sends.
\<close>

record BranchResponse =
  branch_id :: jsval
  name :: jsval
  project_ref :: jsval
  parent_project_ref :: jsval
  git_branch :: jsval
  pr_number :: jsval
  reset_on_push :: jsval
  status :: jsval
  created_at :: jsval
  updated_at :: jsval

record BranchDetailResponse =
  db_host :: jsval
  db_port :: jsval
  db_user :: jsval
  db_pass :: jsval
  jwt_secret :: jsval
  ref :: jsval

datatype ApiKeyResponse = ApiKeyResponse (key_name: string) (api_key: string)

text \<open>
  A rejected remote call: \<open>err_status\<close> is \<open>err.status\<close> (\<open>None\<close> when the property is
  undefined, as for a network failure) and \<open>err_text\<close> is what \<open>${err}\<close> renders.
\<close>

datatype ApiError = ApiError (err_status: "int option") (err_text: string)

text \<open>The error \<open>main\<close> throws: \<open>new Error(message)\<close> with \<open>cause\<close> set.\<close>

datatype Error = Error (message: string) (cause: ApiError)

text \<open>\<open>currentBranch[key]\<close> for the keys of \<open>branchKeys\<close>.\<close>

definition branch_attr :: "BranchResponse \<Rightarrow> string \<Rightarrow> jsval" where
  "branch_attr b key =
     (if key = ''id'' then branch_id b
      else if key = ''name'' then name b
      else if key = ''project_ref'' then project_ref b
      else if key = ''parent_project_ref'' then parent_project_ref b
      else if key = ''git_branch'' then git_branch b
      else if key = ''pr_number'' then pr_number b
      else if key = ''reset_on_push'' then reset_on_push b
      else if key = ''status'' then status b
      else if key = ''created_at'' then created_at b
      else if key = ''updated_at'' then updated_at b
      else JUndefined)"

text \<open>\<open>branchDetails[key]\<close> for the keys of \<open>branchDetailsKeys\<close>.\<close>

definition detail_attr :: "BranchDetailResponse \<Rightarrow> string \<Rightarrow> jsval" where
  "detail_attr d key =
     (if key = ''db_host'' then db_host d
      else if key = ''db_port'' then db_port d
      else if key = ''db_user'' then db_user d
      else if key = ''db_pass'' then db_pass d
      else if key = ''jwt_secret'' then jwt_secret d
      else JUndefined)"

definition branchKeys :: "string list" where
  "branchKeys = [''id'', ''name'', ''project_ref'', ''parent_project_ref'', ''git_branch'',
     ''pr_number'', ''reset_on_push'', ''status'', ''created_at'', ''updated_at'']"

definition branchDetailsKeys :: "string list" where
  "branchDetailsKeys = [''db_host'', ''db_port'', ''db_user'', ''db_pass'', ''jwt_secret'']"

section \<open>Effects\<close>

text \<open>
  Everything \<open>main\<close> does to the outside world, in program order: the calls on
  \<open>@actions/core\<close>, the console, the clock reads, the three remote calls (with their
  argument) and the suspension between two ticks (in milliseconds).
\<close>

datatype event =
    SetSecret string
  | SetOutput string string
  | SetFailed string
  | Info string
  | Warning string
  | ConsoleLog string
  | ConsoleError Error
  | DateNow int
  | GetBranches string
  | GetBranchDetails jsval
  | GetProjectApiKeys jsval
  | Sleep nat

text \<open>How one pass through the loop body ends.\<close>

datatype step = Continue | Return | Throw Error

text \<open>How \<open>main\<close> ends; \<open>Pending\<close> is a loop that is still polling when the script of
  the environment ends.\<close>

datatype outcome = Returned | Thrown Error | Pending

text \<open>The outputs a sequence of events publishes, in order, and the values published
  under one name.\<close>

definition outputs :: "event list \<Rightarrow> (string \<times> string) list" where
  "outputs es = concat (map (\<lambda>e. case e of SetOutput k v \<Rightarrow> [(k, v)] | _ \<Rightarrow> []) es)"

definition values_of :: "string \<Rightarrow> event list \<Rightarrow> string list" where
  "values_of key es = map snd (filter (\<lambda>p. fst p = key) (outputs es))"

definition emit :: "event list \<Rightarrow> event list \<times> 'r \<Rightarrow> event list \<times> 'r" where
  "emit es p = (es @ fst p, snd p)"

section \<open>The environment of one tick\<close>

text \<open>
  What the outside world answers during one pass through the loop: the clock value the
  loop condition reads, and the settlement of each remote call should the pass issue it
  (\<open>Inl\<close> a rejection, \<open>Inr\<close> the resolved value; \<open>None\<close> is a resolved \<open>null\<close>).
\<close>

record tick =
  clock :: int
  branches_resp :: "ApiError + BranchResponse list"
  details_resp :: "ApiError + BranchDetailResponse option"
  keys_resp :: "ApiError + ApiKeyResponse list option"

text \<open>The wait context: what the loop reads from the enclosing scope of \<open>main\<close>.\<close>

record wait_ctx =
  sbRef :: string
  waitForMigrations :: bool
  timeout :: jsnum
  branchName :: string
  now :: int

section \<open>The loop body of \<open>main\<close>\<close>

text \<open>\<open>err.status === 429 || err.status >= 500\<close>.\<close>

definition transient :: "ApiError \<Rightarrow> bool" where
  "transient err = (case err_status err of None \<Rightarrow> False | Some s \<Rightarrow> s = 429 \<or> s \<ge> 500)"

text \<open>The three \<open>.catch\<close> handlers: the events they emit, and the value the awaited
  expression yields or the error it throws.\<close>

definition catch_branches ::
  "ApiError + BranchResponse list \<Rightarrow> event list \<times> (Error + BranchResponse list)" where
  "catch_branches r =
     (case r of
        Inr branches \<Rightarrow> ([], Inr branches)
      | Inl err \<Rightarrow>
          if transient err
          then ([Warning (''Failed fetching fetching branches: '' @ err_text err)], Inr [])
          else ([], Inl (Error ''Failed fetching fetching branches'' err)))"

definition catch_details ::
  "ApiError + BranchDetailResponse option \<Rightarrow> event list \<times> (Error + BranchDetailResponse option)" where
  "catch_details r =
     (case r of
        Inr d \<Rightarrow> ([], Inr d)
      | Inl err \<Rightarrow>
          if transient err
          then ([Warning (''Error fetching branch details: '' @ err_text err)], Inr None)
          else ([], Inl (Error ''Error fetching branch details'' err)))"

definition catch_keys ::
  "ApiError + ApiKeyResponse list option \<Rightarrow> event list \<times> (Error + ApiKeyResponse list option)" where
  "catch_keys r =
     (case r of
        Inr ks \<Rightarrow> ([], Inr ks)
      | Inl err \<Rightarrow>
          if transient err
          then ([Warning (''Error fetching api keys: '' @ err_text err)], Inr None)
          else ([], Inl (Error ''Error fetching api keys'' err)))"

text \<open>The body of \<open>for (const key of apiKeys)\<close>.\<close>

definition publish_api_key :: "ApiKeyResponse \<Rightarrow> event list" where
  "publish_api_key key = [SetSecret (api_key key), SetOutput (key_name key @ ''_key'') (api_key key)]"

text \<open>The body of \<open>for (let key of branchKeys)\<close>, with its test \<open>value === "status"\<close>.\<close>

definition publish_branch_key :: "BranchResponse \<Rightarrow> string \<Rightarrow> event list" where
  "publish_branch_key currentBranch key =
     (let v = branch_attr currentBranch key in
      if truthy v
      then (let key' = (if v = JStr ''status'' then key @ ''branch_status'' else key)
            in [SetSecret (toString v), SetOutput key' (toString v)])
      else [])"

text \<open>The body of \<open>for (const key of branchDetailsKeys)\<close>.\<close>

definition publish_detail_key :: "BranchDetailResponse \<Rightarrow> string \<Rightarrow> event list" where
  "publish_detail_key branchDetails key =
     (let v = detail_attr branchDetails key in
      if truthy v then [SetSecret (toString v), SetOutput key (toString v)] else [])"

text \<open>Lines 114 to 166: everything between the second fetch and \<open>return\<close>.\<close>

definition publish :: "BranchResponse \<Rightarrow> BranchDetailResponse \<Rightarrow> ApiKeyResponse list \<Rightarrow> event list" where
  "publish currentBranch branchDetails apiKeys =
     concat (map publish_api_key apiKeys)
     @ concat (map (publish_branch_key currentBranch) branchKeys)
     @ concat (map (publish_detail_key branchDetails) branchDetailsKeys)
     @ [SetOutput ''api_url'' (''https://'' @ toString (ref branchDetails) @ ''.supabase.co/rest/v1''),
        SetOutput ''graphql_url'' (''https://'' @ toString (ref branchDetails) @ ''.supabase.co/graphql/v1''),
        Info ''success'']"

text \<open>The condition of the \<open>if\<close> at lines 71 to 74.\<close>

definition ready :: "bool \<Rightarrow> BranchResponse option \<Rightarrow> bool" where
  "ready wfm currentBranch =
     (case currentBranch of
        None \<Rightarrow> False
      | Some b \<Rightarrow> \<not> wfm \<or> status b = JStr ''MIGRATIONS_PASSED'' \<or> status b = JStr ''FUNCTIONS_DEPLOYED'')"

text \<open>Lines 170 to 173: the progress notice and the suspension that end a pass.\<close>

definition waiting :: "wait_ctx \<Rightarrow> BranchResponse option \<Rightarrow> event list" where
  "waiting c currentBranch =
     [Info (''Waiting for branch '' @ branchName c @ '' to be created. Status=''
            @ (case currentBranch of None \<Rightarrow> ''undefined'' | Some b \<Rightarrow> toString (status b))),
      Sleep 2900]"

text \<open>Lines 95 to 167, once \<open>branchDetails\<close> is in hand.\<close>

definition fetch_keys :: "tick \<Rightarrow> BranchResponse \<Rightarrow> BranchDetailResponse \<Rightarrow> event list \<times> step" where
  "fetch_keys t currentBranch branchDetails =
     emit [GetProjectApiKeys (project_ref currentBranch)]
       (case catch_keys (keys_resp t) of
          (ws, Inl e) \<Rightarrow> (ws, Throw e)
        | (ws, Inr None) \<Rightarrow> (ws @ [Warning ''Api keys not found''], Continue)
        | (ws, Inr (Some apiKeys)) \<Rightarrow> (ws @ publish currentBranch branchDetails apiKeys, Return))"

text \<open>Lines 75 to 167: the branch of the \<open>if\<close> taken when the candidate is ready.\<close>

definition fetch_details :: "wait_ctx \<Rightarrow> tick \<Rightarrow> BranchResponse \<Rightarrow> event list \<times> step" where
  "fetch_details c t currentBranch =
     emit [Info (''Branch '' @ branchName c @ '' found, status: '' @ toString (status currentBranch)),
           GetBranchDetails (branch_id currentBranch)]
       (case catch_details (details_resp t) of
          (ws, Inl e) \<Rightarrow> (ws, Throw e)
        | (ws, Inr None) \<Rightarrow> (ws @ [Warning ''Branch details not found''], Continue)
        | (ws, Inr (Some branchDetails)) \<Rightarrow> emit ws (fetch_keys t currentBranch branchDetails))"

text \<open>One pass through the body of the \<open>while\<close> loop (lines 56 to 173).\<close>

definition iteration :: "wait_ctx \<Rightarrow> tick \<Rightarrow> event list \<times> step" where
  "iteration c t =
     emit [GetBranches (sbRef c)]
       (case catch_branches (branches_resp t) of
          (ws, Inl e) \<Rightarrow> (ws, Throw e)
        | (ws, Inr branches) \<Rightarrow>
            emit ws
              (let currentBranch = find (\<lambda>b. name b = JStr (branchName c)) branches in
               case currentBranch of
                 None \<Rightarrow> (waiting c currentBranch, Continue)
               | Some b \<Rightarrow>
                   if ready (waitForMigrations c) currentBranch
                   then fetch_details c t b
                   else (waiting c currentBranch, Continue)))"

section \<open>The wait loop\<close>

definition timeout_message :: "string \<Rightarrow> string" where
  "timeout_message bn = ''Timeout waiting for branch '' @ bn @ '' to be created''"

text \<open>
  \<open>while (Date.now() - now < timeout * 1000) { ... }\<close> followed by line 176. Each element
  of the list is the environment of one evaluation of the loop condition and of the pass
  that follows it; the list is the fuel of the loop.
\<close>

fun wait_loop :: "wait_ctx \<Rightarrow> tick list \<Rightarrow> event list \<times> outcome" where
  "wait_loop c [] = ([], Pending)"
| "wait_loop c (t # ts) =
     emit [DateNow (clock t)]
       (if js_less (clock t - now c) (times_1000 (timeout c))
        then (case iteration c t of
                (es, Continue) \<Rightarrow> emit es (wait_loop c ts)
              | (es, Return) \<Rightarrow> (es, Returned)
              | (es, Throw e) \<Rightarrow> (es, Thrown e))
        else ([SetFailed (timeout_message (branchName c))], Returned))"

section \<open>\<open>main\<close> and the process boundary\<close>

text \<open>
  What \<open>main\<close> reads once at its start: the inputs as \<open>@actions/core\<close> returns them
  (\<open>timeout_in\<close> is the value of \<open>Number(core.getInput("timeout"))\<close>), the two
  environment variables and the first clock value. A run in which \<open>@actions/core\<close> itself
  rejects an input (a required input that is missing, a flag that is no boolean) never
  reaches line 13 and is not part of this model.
\<close>

record inputs =
  sbToken_in :: string
  sbRef_in :: string
  waitForMigrations_in :: bool
  timeout_in :: jsnum
  GITHUB_HEAD_REF :: "string option"
  GITHUB_REF :: "string option"
  start :: int

text \<open>\<open>s.split(sep)\<close> for a non-empty separator.\<close>

function split_str :: "string \<Rightarrow> string \<Rightarrow> string \<Rightarrow> string list" where
  "split_str sep acc [] = [rev acc]"
| "split_str sep acc (ch # cs) =
     (if sep \<noteq> [] \<and> prefix sep (ch # cs)
      then rev acc # split_str sep [] (drop (length sep) (ch # cs))
      else split_str sep (ch # acc) cs)"
  by pat_completeness auto
termination
  by (relation "measure (\<lambda>(sep, acc, s). length s)") auto

text \<open>\<open>(process.env.GITHUB_REF ?? "").split("refs/heads/")[1]\<close>; \<open>None\<close> is \<open>undefined\<close>.\<close>

definition branch_of_ref :: "string option \<Rightarrow> string option" where
  "branch_of_ref r =
     (case split_str ''refs/heads/'' [] (case r of None \<Rightarrow> [] | Some s \<Rightarrow> s) of
        _ # x # _ \<Rightarrow> Some x
      | _ \<Rightarrow> None)"

text \<open>Lines 37 to 41.\<close>

definition find_branch_name :: "inputs \<Rightarrow> string option" where
  "find_branch_name inp =
     (case GITHUB_HEAD_REF inp of
        None \<Rightarrow> branch_of_ref (GITHUB_REF inp)
      | Some h \<Rightarrow> if h = [] then branch_of_ref (GITHUB_REF inp) else Some h)"

definition main :: "inputs \<Rightarrow> tick list \<Rightarrow> event list \<times> outcome" where
  "main inp ticks =
     emit [SetSecret (sbToken_in inp), SetSecret (sbRef_in inp)]
       (if sbToken_in inp = [] then ([SetFailed ''Supabase access token is not defined''], Returned)
        else if sbRef_in inp = [] then ([SetFailed ''Supabase project id is not defined''], Returned)
        else if isNaN (timeout_in inp) then ([SetFailed ''Timeout is not a valid number''], Returned)
        else
          (case find_branch_name inp of
             None \<Rightarrow> ([ConsoleLog ''undefined'', SetFailed ''Git branch not found''], Returned)
           | Some bn \<Rightarrow>
               if bn = [] then ([ConsoleLog bn, SetFailed ''Git branch not found''], Returned)
               else
                 emit [ConsoleLog bn, Info (''Current Git branch: '' @ bn), DateNow (start inp)]
                   (wait_loop \<lparr>sbRef = sbRef_in inp, waitForMigrations = waitForMigrations_in inp,
                                timeout = timeout_in inp, branchName = bn, now = start inp\<rparr> ticks)))"

text \<open>\<open>main().catch(handleError)\<close>: the events of a whole run. An \<open>Error\<close> whose message
  is not empty renders as \<open>Error: \<close> followed by the message.\<close>

definition run :: "inputs \<Rightarrow> tick list \<Rightarrow> event list" where
  "run inp ticks =
     (case main inp ticks of
        (es, Thrown e) \<Rightarrow>
          es @ [ConsoleError e,
                SetFailed (''Unhandled error: Error: '' @ message e)]
      | (es, _) \<Rightarrow> es)"

section \<open>Masking discipline of a trace\<close>

text \<open>
  Two neighbouring events respect the masking discipline when the second, if it is a
  \<open>setOutput\<close> of a name other than the two URL outputs, directly follows the
  \<open>setSecret\<close> of the very value it publishes, and, if it is one of the two URL outputs,
  does not follow a \<open>setSecret\<close>. A block is a stretch of events that respects the
  discipline throughout, does not start with an output and does not end with a
  \<open>setSecret\<close>.
\<close>

definition is_output :: "event \<Rightarrow> bool" where
  "is_output e = (case e of SetOutput _ _ \<Rightarrow> True | _ \<Rightarrow> False)"

definition is_secret :: "event \<Rightarrow> bool" where
  "is_secret e = (case e of SetSecret _ \<Rightarrow> True | _ \<Rightarrow> False)"

definition masked_step :: "event \<Rightarrow> event \<Rightarrow> bool" where
  "masked_step e e' =
     (case e' of
        SetOutput k v \<Rightarrow>
          if k = ''api_url'' \<or> k = ''graphql_url'' then \<not> is_secret e else e = SetSecret v
      | _ \<Rightarrow> True)"

definition masked_block :: "event list \<Rightarrow> bool" where
  "masked_block es \<longleftrightarrow>
     successively masked_step es \<and> (es = [] \<or> \<not> is_output (hd es) \<and> \<not> is_secret (last es))"

section \<open>Example environments\<close>

text \<open>
  Concrete inputs for the instances below: a preview branch named \<open>feat-x\<close> with a given
  status, its connection details, one credential entry, a wait context with a timeout of
  five seconds, and the inputs of a run on the branch \<open>feat-x\<close>.
\<close>

definition example_branch :: "string \<Rightarrow> BranchResponse" where
  "example_branch st =
     \<lparr>branch_id = JStr ''b-1'', name = JStr ''feat-x'', project_ref = JStr ''prj'',
      parent_project_ref = JStr ''parent'', git_branch = JStr ''feat-x'', pr_number = JNum 7,
      reset_on_push = JBool False, status = JStr st, created_at = JStr ''2024-01-01'',
      updated_at = JUndefined\<rparr>"

definition example_details :: BranchDetailResponse where
  "example_details =
     \<lparr>db_host = JStr ''db.prj'', db_port = JNum 5432, db_user = JStr ''postgres'',
      db_pass = JStr ''pw'', jwt_secret = JNull, ref = JStr ''prj''\<rparr>"

definition example_ctx :: "bool \<Rightarrow> wait_ctx" where
  "example_ctx wfm =
     \<lparr>sbRef = ''parent'', waitForMigrations = wfm, timeout = Finite 5,
      branchName = ''feat-x'', now = 0\<rparr>"

definition example_tick :: "int \<Rightarrow> string \<Rightarrow> tick" where
  "example_tick ms st =
     \<lparr>clock = ms, branches_resp = Inr [example_branch st],
      details_resp = Inr (Some example_details),
      keys_resp = Inr (Some [ApiKeyResponse ''anon'' ''k1''])\<rparr>"

definition example_inputs :: "jsnum \<Rightarrow> inputs" where
  "example_inputs secs =
     \<lparr>sbToken_in = ''tok'', sbRef_in = ''parent'', waitForMigrations_in = False,
      timeout_in = secs, GITHUB_HEAD_REF = None, GITHUB_REF = Some ''refs/heads/feat-x'',
      start = 0\<rparr>"

lemmas example_defs =
  example_branch_def example_details_def example_ctx_def example_tick_def example_inputs_def

section \<open>Basic facts\<close>

lemmas publish_defs = publish_def publish_api_key_def publish_branch_key_def publish_detail_key_def
  branchKeys_def branchDetailsKeys_def branch_attr_def detail_attr_def int_to_string_def digits.simps

lemma outputs_Nil [simp]: "outputs [] = []"
  by (simp add: outputs_def)

lemma outputs_append [simp]: "outputs (xs @ ys) = outputs xs @ outputs ys"
  by (simp add: outputs_def)

lemma outputs_Cons:
  "outputs (e # es) = (case e of SetOutput k v \<Rightarrow> [(k, v)] | _ \<Rightarrow> []) @ outputs es"
  by (simp add: outputs_def)

lemma outputs_api_keys:
  "outputs (concat (map publish_api_key ks)) = map (\<lambda>k. (key_name k @ ''_key'', api_key k)) ks"
  by (induction ks) (simp_all add: publish_api_key_def outputs_Cons)

lemma outputs_publish:
  "outputs (publish b d ks) =
     map (\<lambda>k. (key_name k @ ''_key'', api_key k)) ks
     @ outputs (concat (map (publish_branch_key b) branchKeys))
     @ outputs (concat (map (publish_detail_key d) branchDetailsKeys))
     @ [(''api_url'', ''https://'' @ toString (ref d) @ ''.supabase.co/rest/v1''),
        (''graphql_url'', ''https://'' @ toString (ref d) @ ''.supabase.co/graphql/v1'')]"
  by (simp add: publish_def outputs_api_keys outputs_Cons)

lemma fetch_keys_cases:
  "fetch_keys t b d =
     (case keys_resp t of
        Inl err \<Rightarrow>
          if transient err
          then ([GetProjectApiKeys (project_ref b), Warning (''Error fetching api keys: '' @ err_text err),
                 Warning ''Api keys not found''], Continue)
          else ([GetProjectApiKeys (project_ref b)], Throw (Error ''Error fetching api keys'' err))
      | Inr None \<Rightarrow> ([GetProjectApiKeys (project_ref b), Warning ''Api keys not found''], Continue)
      | Inr (Some ks) \<Rightarrow> (GetProjectApiKeys (project_ref b) # publish b d ks, Return))"
  by (simp add: fetch_keys_def catch_keys_def emit_def split: sum.splits option.splits)

lemma fetch_details_cases:
  "fetch_details c t b =
     emit [Info (''Branch '' @ branchName c @ '' found, status: '' @ toString (status b)),
           GetBranchDetails (branch_id b)]
     (case details_resp t of
        Inl err \<Rightarrow>
          if transient err
          then ([Warning (''Error fetching branch details: '' @ err_text err),
                 Warning ''Branch details not found''], Continue)
          else ([], Throw (Error ''Error fetching branch details'' err))
      | Inr None \<Rightarrow> ([Warning ''Branch details not found''], Continue)
      | Inr (Some d) \<Rightarrow> fetch_keys t b d)"
  by (simp add: fetch_details_def catch_details_def emit_def split: sum.splits option.splits)

lemma iteration_cases:
  "iteration c t =
     emit [GetBranches (sbRef c)]
     (case branches_resp t of
        Inl err \<Rightarrow>
          if transient err
          then (Warning (''Failed fetching fetching branches: '' @ err_text err) # waiting c None, Continue)
          else ([], Throw (Error ''Failed fetching fetching branches'' err))
      | Inr branches \<Rightarrow>
          (case find (\<lambda>b. name b = JStr (branchName c)) branches of
             None \<Rightarrow> (waiting c None, Continue)
           | Some b \<Rightarrow>
               if ready (waitForMigrations c) (Some b) then fetch_details c t b
               else (waiting c (Some b), Continue)))"
  by (simp add: iteration_def catch_branches_def emit_def split: sum.splits option.splits)

lemma outputs_waiting [simp]: "outputs (waiting c cur) = []"
  by (simp add: waiting_def outputs_Cons)

section \<open>Publishing happens in one piece\<close>

text \<open>
  Claim C7. A pass through the loop body either publishes no output at all and does not
  end in success, or it ends in success and publishes the whole output set: one
  \<open>_key\<close> output per credential entry, the outputs of the summary attributes, the outputs
  of the detail attributes, then \<open>api_url\<close> and \<open>graphql_url\<close>. A pass whose detail
  or credential fetch is rejected publishes nothing.
\<close>

theorem publishing_all_or_nothing:
  assumes "iteration c t = (es, r)"
  shows "(outputs es = [] \<and> r \<noteq> Return
          \<or> r = Return
            \<and> (\<exists>branches b d ks.
                  branches_resp t = Inr branches
                \<and> find (\<lambda>b. name b = JStr (branchName c)) branches = Some b
                \<and> details_resp t = Inr (Some d) \<and> keys_resp t = Inr (Some ks)
                \<and> outputs es =
                    map (\<lambda>k. (key_name k @ ''_key'', api_key k)) ks
                    @ outputs (concat (map (publish_branch_key b) branchKeys))
                    @ outputs (concat (map (publish_detail_key d) branchDetailsKeys))
                    @ [(''api_url'', ''https://'' @ toString (ref d) @ ''.supabase.co/rest/v1''),
                       (''graphql_url'', ''https://'' @ toString (ref d) @ ''.supabase.co/graphql/v1'')]))
       \<and> ((\<exists>err. details_resp t = Inl err \<or> keys_resp t = Inl err) \<longrightarrow> outputs es = [])"
  using assms
  by (auto simp: iteration_cases fetch_details_cases fetch_keys_cases emit_def outputs_Cons
        outputs_publish
      split: sum.splits option.splits if_splits)


theorem publishing_all_or_nothing_witness:
  "iteration (example_ctx False) (example_tick 10 ''CREATING_PROJECT'') =
     (fst (iteration (example_ctx False) (example_tick 10 ''CREATING_PROJECT'')), Return)
   \<and> outputs (fst (iteration (example_ctx False) (example_tick 10 ''CREATING_PROJECT''))) =
       [(''anon_key'', ''k1''), (''id'', ''b-1''), (''name'', ''feat-x''), (''project_ref'', ''prj''),
        (''parent_project_ref'', ''parent''), (''git_branch'', ''feat-x''), (''pr_number'', ''7''),
        (''status'', ''CREATING_PROJECT''), (''created_at'', ''2024-01-01''),
        (''db_host'', ''db.prj''), (''db_port'', ''5432''), (''db_user'', ''postgres''),
        (''db_pass'', ''pw''), (''api_url'', ''https://prj.supabase.co/rest/v1''),
        (''graphql_url'', ''https://prj.supabase.co/graphql/v1'')]
   \<and> iteration (example_ctx False)
        ((example_tick 10 ''CREATING_PROJECT'')
           \<lparr>keys_resp := Inl (ApiError (Some 503) ''ApiError: Service Unavailable'')\<rparr>) =
     (fst (iteration (example_ctx False)
        ((example_tick 10 ''CREATING_PROJECT'')
           \<lparr>keys_resp := Inl (ApiError (Some 503) ''ApiError: Service Unavailable'')\<rparr>)), Continue)
   \<and> outputs (fst (iteration (example_ctx False)
        ((example_tick 10 ''CREATING_PROJECT'')
           \<lparr>keys_resp := Inl (ApiError (Some 503) ''ApiError: Service Unavailable'')\<rparr>))) = []"
proof -
  let ?c = "example_ctx False" and ?t = "example_tick 10 ''CREATING_PROJECT''"
  let ?t' = "?t\<lparr>keys_resp := Inl (ApiError (Some 503) ''ApiError: Service Unavailable'')\<rparr>"
  have h: "iteration ?c ?t = (fst (iteration ?c ?t), Return)"
    by (simp add: iteration_cases fetch_details_cases fetch_keys_cases emit_def ready_def example_defs)
  have h': "iteration ?c ?t' = (fst (iteration ?c ?t'), Continue)"
    by (simp add: iteration_cases fetch_details_cases fetch_keys_cases emit_def ready_def
          transient_def example_defs)
  have rejected: "\<exists>err. details_resp ?t' = Inl err \<or> keys_resp ?t' = Inl err"
    by auto
  from publishing_all_or_nothing [OF h'] rejected have none: "outputs (fst (iteration ?c ?t')) = []"
    by blast
  show ?thesis
    using h h' none publishing_all_or_nothing [OF h]
    by (simp add: example_defs outputs_Cons publish_defs)
qed

section \<open>Readiness\<close>

text \<open>
  Claim C1. The readiness test depends only on whether a candidate (the first listed
  environment whose name is the branch name) is present, on its status and on the
  wait-for-migrations flag. Without the flag the candidate is ready iff some listed
  environment has the branch name; with the flag it is ready iff it is present and its
  status is \<open>MIGRATIONS_PASSED\<close> or \<open>FUNCTIONS_DEPLOYED\<close>. A pass that is not ready
  emits the progress notice, sleeps and continues the loop; a pass that is ready enters
  the detail fetch.
\<close>

theorem readiness_classifier:
  assumes "branches_resp t = Inr branches"
  shows "(ready (waitForMigrations c) (find (\<lambda>b. name b = JStr (branchName c)) branches) \<longleftrightarrow>
            (if waitForMigrations c
             then \<exists>b. find (\<lambda>b. name b = JStr (branchName c)) branches = Some b
                      \<and> (status b = JStr ''MIGRATIONS_PASSED'' \<or> status b = JStr ''FUNCTIONS_DEPLOYED'')
             else \<exists>b\<in>set branches. name b = JStr (branchName c)))
       \<and> (\<not> ready (waitForMigrations c) (find (\<lambda>b. name b = JStr (branchName c)) branches) \<longrightarrow>
            iteration c t =
              (GetBranches (sbRef c) # waiting c (find (\<lambda>b. name b = JStr (branchName c)) branches),
               Continue))
       \<and> (ready (waitForMigrations c) (find (\<lambda>b. name b = JStr (branchName c)) branches) \<longrightarrow>
            (\<exists>b. find (\<lambda>b. name b = JStr (branchName c)) branches = Some b
                \<and> iteration c t = emit [GetBranches (sbRef c)] (fetch_details c t b)))"
proof -
  let ?cur = "find (\<lambda>b. name b = JStr (branchName c)) branches"
  have present: "(?cur \<noteq> None) = (\<exists>b\<in>set branches. name b = JStr (branchName c))"
    by (auto simp: find_None_iff)
  have classify: "ready (waitForMigrations c) ?cur \<longleftrightarrow>
      (if waitForMigrations c
       then \<exists>b. ?cur = Some b
                \<and> (status b = JStr ''MIGRATIONS_PASSED'' \<or> status b = JStr ''FUNCTIONS_DEPLOYED'')
       else \<exists>b\<in>set branches. name b = JStr (branchName c))"
    using present by (cases ?cur) (auto simp: ready_def)
  have not_ready: "\<not> ready (waitForMigrations c) ?cur \<Longrightarrow>
      iteration c t = (GetBranches (sbRef c) # waiting c ?cur, Continue)"
    using assms by (cases ?cur) (simp_all add: iteration_cases emit_def)
  have is_ready: "ready (waitForMigrations c) ?cur \<Longrightarrow>
      \<exists>b. ?cur = Some b \<and> iteration c t = emit [GetBranches (sbRef c)] (fetch_details c t b)"
    using assms by (cases ?cur) (simp_all add: iteration_cases ready_def)
  from classify not_ready is_ready show ?thesis by blast
qed

theorem readiness_classifier_witness:
  "branches_resp (example_tick 10 ''CREATING_PROJECT'') = Inr [example_branch ''CREATING_PROJECT'']
   \<and> \<not> ready True (find (\<lambda>b. name b = JStr ''feat-x'') [example_branch ''CREATING_PROJECT''])
   \<and> ready False (find (\<lambda>b. name b = JStr ''feat-x'') [example_branch ''CREATING_PROJECT''])
   \<and> iteration (example_ctx True) (example_tick 10 ''CREATING_PROJECT'') =
       ([GetBranches ''parent'',
         Info ''Waiting for branch feat-x to be created. Status=CREATING_PROJECT'',
         Sleep 2900], Continue)
   \<and> fst (iteration (example_ctx False) (example_tick 10 ''CREATING_PROJECT'')) ! 2
       = GetBranchDetails (JStr ''b-1'')"
proof -
  have h: "branches_resp (example_tick 10 ''CREATING_PROJECT'') = Inr [example_branch ''CREATING_PROJECT'']"
    by (simp add: example_defs)
  note waits = readiness_classifier [OF h, of "example_ctx True"]
  note goes = readiness_classifier [OF h, of "example_ctx False"]
  have flag: "waitForMigrations (example_ctx True)" "\<not> waitForMigrations (example_ctx False)"
    "branchName (example_ctx w) = ''feat-x''" "sbRef (example_ctx w) = ''parent''" for w
    by (simp_all add: example_defs)
  have st: "status (example_branch ''CREATING_PROJECT'') = JStr ''CREATING_PROJECT''"
    "name (example_branch ''CREATING_PROJECT'') = JStr ''feat-x''"
    "branch_id (example_branch ''CREATING_PROJECT'') = JStr ''b-1''"
    by (simp_all add: example_defs)
  show ?thesis
    using h waits goes
    by (simp add: flag st ready_def waiting_def emit_def fetch_details_cases)
qed

section \<open>Failures of the listing call\<close>

text \<open>
  Claim C3. When the list call is rejected with status 429 or at least 500, the pass
  behaves as it does on an empty listing (apart from the warning) and the loop goes on
  with the next tick; on any other rejection the pass throws at once, the loop ends, and
  the error thrown carries the remote error as its cause.
\<close>

theorem listing_failure:
  assumes "branches_resp t = Inl err"
  shows "(transient err \<longleftrightarrow> err_status err = Some 429 \<or> (\<exists>s. err_status err = Some s \<and> 500 \<le> s))
       \<and> (transient err \<longrightarrow>
            iteration c t =
              (GetBranches (sbRef c)
                 # Warning (''Failed fetching fetching branches: '' @ err_text err)
                 # waiting c None, Continue)
          \<and> iteration c (t\<lparr>branches_resp := Inr []\<rparr>) = (GetBranches (sbRef c) # waiting c None, Continue))
       \<and> (\<not> transient err \<longrightarrow>
            iteration c t = ([GetBranches (sbRef c)], Throw (Error ''Failed fetching fetching branches'' err))
          \<and> cause (Error ''Failed fetching fetching branches'' err) = err)
       \<and> (js_less (clock t - now c) (times_1000 (timeout c)) \<longrightarrow>
            (transient err \<longrightarrow>
               wait_loop c (t # ts) =
                 emit (DateNow (clock t) # GetBranches (sbRef c)
                         # Warning (''Failed fetching fetching branches: '' @ err_text err)
                         # waiting c None)
                   (wait_loop c ts))
          \<and> (\<not> transient err \<longrightarrow>
               wait_loop c (t # ts) =
                 ([DateNow (clock t), GetBranches (sbRef c)],
                  Thrown (Error ''Failed fetching fetching branches'' err))))"
proof -
  have status: "transient err \<longleftrightarrow> err_status err = Some 429 \<or> (\<exists>s. err_status err = Some s \<and> 500 \<le> s)"
    by (auto simp: transient_def split: option.splits)
  have soft: "transient err \<Longrightarrow> iteration c t =
      (GetBranches (sbRef c) # Warning (''Failed fetching fetching branches: '' @ err_text err)
         # waiting c None, Continue)"
    using assms by (simp add: iteration_cases emit_def)
  have empty: "iteration c (t\<lparr>branches_resp := Inr []\<rparr>) = (GetBranches (sbRef c) # waiting c None, Continue)"
    by (simp add: iteration_cases emit_def)
  have hard: "\<not> transient err \<Longrightarrow> iteration c t =
      ([GetBranches (sbRef c)], Throw (Error ''Failed fetching fetching branches'' err))"
    using assms by (simp add: iteration_cases emit_def)
  have loop_soft: "js_less (clock t - now c) (times_1000 (timeout c)) \<Longrightarrow> transient err \<Longrightarrow>
      wait_loop c (t # ts) =
        emit (DateNow (clock t) # GetBranches (sbRef c)
                # Warning (''Failed fetching fetching branches: '' @ err_text err)
                # waiting c None)
          (wait_loop c ts)"
    using soft by (simp add: emit_def)
  have loop_hard: "js_less (clock t - now c) (times_1000 (timeout c)) \<Longrightarrow> \<not> transient err \<Longrightarrow>
      wait_loop c (t # ts) =
        ([DateNow (clock t), GetBranches (sbRef c)],
         Thrown (Error ''Failed fetching fetching branches'' err))"
    using hard by (simp add: emit_def)
  from status soft empty hard loop_soft loop_hard show ?thesis by simp
qed

theorem listing_failure_witness:
  "branches_resp ((example_tick 10 ''CREATING_PROJECT'')
      \<lparr>branches_resp := Inl (ApiError (Some 503) ''ApiError: Service Unavailable'')\<rparr>)
     = Inl (ApiError (Some 503) ''ApiError: Service Unavailable'')
   \<and> transient (ApiError (Some 503) ''ApiError: Service Unavailable'')
   \<and> wait_loop (example_ctx True)
        [(example_tick 10 ''CREATING_PROJECT'')
           \<lparr>branches_resp := Inl (ApiError (Some 503) ''ApiError: Service Unavailable'')\<rparr>] =
       ([DateNow 10, GetBranches ''parent'',
         Warning ''Failed fetching fetching branches: ApiError: Service Unavailable'',
         Info ''Waiting for branch feat-x to be created. Status=undefined'',
         Sleep 2900], Pending)
   \<and> branches_resp ((example_tick 10 ''CREATING_PROJECT'')
      \<lparr>branches_resp := Inl (ApiError (Some 404) ''ApiError: Not Found'')\<rparr>)
     = Inl (ApiError (Some 404) ''ApiError: Not Found'')
   \<and> \<not> transient (ApiError (Some 404) ''ApiError: Not Found'')
   \<and> wait_loop (example_ctx True)
        [(example_tick 10 ''CREATING_PROJECT'')
           \<lparr>branches_resp := Inl (ApiError (Some 404) ''ApiError: Not Found'')\<rparr>] =
       ([DateNow 10, GetBranches ''parent''],
        Thrown (Error ''Failed fetching fetching branches'' (ApiError (Some 404) ''ApiError: Not Found'')))"
proof -
  let ?t503 = "(example_tick 10 ''CREATING_PROJECT'')
      \<lparr>branches_resp := Inl (ApiError (Some 503) ''ApiError: Service Unavailable'')\<rparr>"
  let ?t404 = "(example_tick 10 ''CREATING_PROJECT'')
      \<lparr>branches_resp := Inl (ApiError (Some 404) ''ApiError: Not Found'')\<rparr>"
  have h503: "branches_resp ?t503 = Inl (ApiError (Some 503) ''ApiError: Service Unavailable'')"
    and h404: "branches_resp ?t404 = Inl (ApiError (Some 404) ''ApiError: Not Found'')"
    by simp_all
  have guard: "js_less (clock ?t503 - now (example_ctx True)) (times_1000 (timeout (example_ctx True)))"
    "js_less (clock ?t404 - now (example_ctx True)) (times_1000 (timeout (example_ctx True)))"
    by (simp_all add: example_defs)
  have ctx: "branchName (example_ctx True) = ''feat-x''" "sbRef (example_ctx True) = ''parent''"
    by (simp_all add: example_defs)
  have clk: "clock ?t503 = 10" "clock ?t404 = 10"
    by (simp_all add: example_defs)
  show ?thesis
    using h503 h404 guard
      listing_failure [OF h503, of "example_ctx True" "[]"]
      listing_failure [OF h404, of "example_ctx True" "[]"]
    by (simp add: ctx clk waiting_def emit_def)
qed

section \<open>The timeout guard\<close>

lemma no_clock_in_publish: "DateNow k \<notin> set (publish b d ks)"
  by (auto simp: publish_def publish_api_key_def publish_branch_key_def publish_detail_key_def Let_def)

lemma no_clock_in_iteration: "DateNow k \<notin> set (fst (iteration c t))"
  by (auto simp: iteration_cases fetch_details_cases fetch_keys_cases emit_def waiting_def
        no_clock_in_publish split: sum.splits option.splits if_splits)

lemma split_after_prefix:
  assumes "xs @ ys = pre @ a # post" and "a \<notin> set xs"
  shows "\<exists>us. pre = xs @ us \<and> ys = us @ a # post"
  using assms by (auto simp: append_eq_append_conv2 append_eq_Cons_conv)

lemma success_is_last:
  assumes "iteration c t = (es, Return)"
  shows "\<exists>es'. es = es' @ [Info ''success'']"
proof -
  have "\<exists>es'. publish b d ks = es' @ [Info ''success'']" for b d ks
    by (simp add: publish_def)
  then show ?thesis
    using assms
    by (auto simp: iteration_cases fetch_details_cases fetch_keys_cases emit_def
          split: sum.splits option.splits if_splits)
       (metis append_Cons)+
qed

lemma after_late_clock_read:
  assumes "wait_loop c ticks = (es, r)"
    and "es = pre @ DateNow k # post"
    and "\<not> js_less (k - now c) (times_1000 (timeout c))"
  shows "post = [SetFailed (timeout_message (branchName c))] \<and> r = Returned"
  using assms
proof (induction ticks arbitrary: es r pre)
  case Nil
  then show ?case by (simp add: emit_def)
next
  case (Cons t ts)
  show ?case
  proof (cases "js_less (clock t - now c) (times_1000 (timeout c))")
    case False
    with Cons.prems(1) have es: "es = [DateNow (clock t), SetFailed (timeout_message (branchName c))]"
      and r: "r = Returned"
      by (auto simp: emit_def)
    from es Cons.prems(2) have "pre = []"
      by (cases pre) (auto simp: append_eq_Cons_conv)
    with es Cons.prems(2) r show ?thesis by simp
  next
    case True
    obtain ies st where it: "iteration c t = (ies, st)" by (cases "iteration c t")
    have noclk: "DateNow k \<notin> set ies"
      using no_clock_in_iteration [of k c t] it by simp
    obtain es' r' where rest: "wait_loop c ts = (es', r')" by (cases "wait_loop c ts")
    show ?thesis
    proof (cases pre)
      case Nil
      with Cons.prems(1,2) True have "k = clock t"
        by (auto simp: emit_def split: prod.splits step.splits)
      with True Cons.prems(3) show ?thesis by simp
    next
      case (Cons e pre')
      show ?thesis
      proof (cases st)
        case Continue
        with Cons.prems(1) True it rest have es: "es = DateNow (clock t) # ies @ es'" and r: "r = r'"
          by (auto simp: emit_def)
        with Cons.prems(2) Cons have "ies @ es' = pre' @ DateNow k # post" by simp
        from split_after_prefix [OF this noclk]
        obtain us where "es' = us @ DateNow k # post" by blast
        from Cons.IH [OF rest this Cons.prems(3)] r show ?thesis by simp
      next
        case Return
        with Cons.prems(1) True it have "es = DateNow (clock t) # ies"
          by (auto simp: emit_def)
        with Cons.prems(2) Cons have "DateNow k \<in> set ies" by auto
        with noclk show ?thesis by simp
      next
        case (Throw x)
        with Cons.prems(1) True it have "es = DateNow (clock t) # ies"
          by (auto simp: emit_def)
        with Cons.prems(2) Cons have "DateNow k \<in> set ies" by auto
        with noclk show ?thesis by simp
      qed
    qed
  qed
qed

lemma how_the_loop_returns:
  assumes "wait_loop c ticks = (es, Returned)"
  shows "(\<exists>es'. es = es' @ [Info ''success''])
       \<or> (\<exists>es' k. es = es' @ [DateNow k, SetFailed (timeout_message (branchName c))]
                  \<and> \<not> js_less (k - now c) (times_1000 (timeout c)))"
  using assms
proof (induction ticks arbitrary: es)
  case Nil
  then show ?case by simp
next
  case (Cons t ts)
  show ?case
  proof (cases "js_less (clock t - now c) (times_1000 (timeout c))")
    case False
    with Cons.prems have "es = [] @ [DateNow (clock t), SetFailed (timeout_message (branchName c))]"
      by (auto simp: emit_def)
    with False show ?thesis by blast
  next
    case True
    obtain ies st where it: "iteration c t = (ies, st)" by (cases "iteration c t")
    obtain es' r' where rest: "wait_loop c ts = (es', r')" by (cases "wait_loop c ts")
    show ?thesis
    proof (cases st)
      case Continue
      with Cons.prems True it rest have es: "es = (DateNow (clock t) # ies) @ es'" and r: "r' = Returned"
        by (auto simp: emit_def)
      from Cons.IH [OF rest [unfolded r]] show ?thesis
      proof
        assume "\<exists>a. es' = a @ [Info ''success'']"
        then obtain a where "es' = a @ [Info ''success'']" ..
        with es have "es = ((DateNow (clock t) # ies) @ a) @ [Info ''success'']" by simp
        then show ?thesis by blast
      next
        assume "\<exists>a k. es' = a @ [DateNow k, SetFailed (timeout_message (branchName c))]
                  \<and> \<not> js_less (k - now c) (times_1000 (timeout c))"
        then obtain a k where "es' = a @ [DateNow k, SetFailed (timeout_message (branchName c))]"
          and late: "\<not> js_less (k - now c) (times_1000 (timeout c))" by blast
        with es have "es = ((DateNow (clock t) # ies) @ a) @ [DateNow k, SetFailed (timeout_message (branchName c))]"
          by simp
        with late show ?thesis by blast
      qed
    next
      case Return
      with Cons.prems True it have es: "es = DateNow (clock t) # ies"
        by (auto simp: emit_def)
      from success_is_last [OF it [unfolded Return]] obtain a where "ies = a @ [Info ''success'']" ..
      with es have "es = (DateNow (clock t) # a) @ [Info ''success'']" by simp
      then show ?thesis by blast
    next
      case (Throw x)
      with Cons.prems True it show ?thesis by (auto simp: emit_def)
    qed
  qed
qed


lemma one_listing_per_pass: "\<exists>es. fst (iteration c t) = GetBranches (sbRef c) # es \<and> (\<forall>x. GetBranches x \<notin> set es)"
proof -
  have "GetBranches x \<notin> set (publish b d ks)" for x b d ks
    by (auto simp: publish_def publish_api_key_def publish_branch_key_def publish_detail_key_def Let_def)
  then show ?thesis
    by (auto simp: iteration_cases fetch_details_cases fetch_keys_cases emit_def waiting_def
          split: sum.splits option.splits if_splits)
qed

lemma pass_starts_under_guard:
  assumes "wait_loop c ticks = (es, r)"
    and "es = pre @ GetBranches x # post"
  shows "\<exists>pre' k. pre = pre' @ [DateNow k] \<and> js_less (k - now c) (times_1000 (timeout c))"
  using assms
proof (induction ticks arbitrary: es r pre)
  case Nil
  then show ?case by simp
next
  case (Cons t ts)
  show ?case
  proof (cases "js_less (clock t - now c) (times_1000 (timeout c))")
    case False
    with Cons.prems(1) have "es = [DateNow (clock t), SetFailed (timeout_message (branchName c))]"
      by (auto simp: emit_def)
    with Cons.prems(2) have "GetBranches x \<in> set [DateNow (clock t), SetFailed (timeout_message (branchName c))]"
      by (metis in_set_conv_decomp)
    then show ?thesis by simp
  next
    case True
    obtain ies where ies: "fst (iteration c t) = GetBranches (sbRef c) # ies"
      and once: "\<forall>x. GetBranches x \<notin> set ies"
      using one_listing_per_pass [of c t] by blast
    obtain st where it: "iteration c t = (GetBranches (sbRef c) # ies, st)"
      using ies by (cases "iteration c t") simp
    obtain es' r' where rest: "wait_loop c ts = (es', r')" by (cases "wait_loop c ts")
    have shape: "\<exists>tail. es = DateNow (clock t) # GetBranches (sbRef c) # ies @ tail
                  \<and> (tail = [] \<or> st = Continue \<and> tail = es')"
      using Cons.prems(1) True it rest by (cases st) (auto simp: emit_def)
    then obtain tail where es: "es = DateNow (clock t) # GetBranches (sbRef c) # ies @ tail"
      and tail: "tail = [] \<or> st = Continue \<and> tail = es'" by blast
    show ?thesis
    proof (cases pre)
      case Nil
      with es Cons.prems(2) show ?thesis by simp
    next
      case pre1: (Cons e1 pre1)
      show ?thesis
      proof (cases pre1)
        case Nil
        with pre1 es Cons.prems(2) True show ?thesis by simp
      next
        case pre2: (Cons e2 pre2)
        with pre1 es Cons.prems(2) have "ies @ tail = pre2 @ GetBranches x # post" by simp
        from split_after_prefix [OF this] once
        obtain us where us: "pre2 = ies @ us" "tail = us @ GetBranches x # post" by blast
        with tail have "es' = us @ GetBranches x # post" by auto
        from Cons.IH [OF rest this]
        obtain pre' k where "us = pre' @ [DateNow k]" "js_less (k - now c) (times_1000 (timeout c))"
          by blast
        with pre1 pre2 us(1) have "pre = (e1 # e2 # ies @ pre') @ [DateNow k]" by simp
        with \<open>js_less (k - now c) (times_1000 (timeout c))\<close> show ?thesis by blast
      qed
    qed
  qed
qed

text \<open>
  Claim C2. In every run of the wait loop, a pass begins (its listing call is issued) only
  directly after a clock read whose elapsed time is below \<open>timeout * 1000\<close> milliseconds;
  after a clock read at or beyond the timeout nothing happens but the failure report, so no
  remote call is started. When the loop is left through its condition rather than through
  the successful \<open>return\<close>, the run reports the failure
  \<open>Timeout waiting for branch <branch> to be created\<close>, which names the target branch and
  the timeout.
\<close>

theorem timeout_guard:
  assumes "wait_loop c ticks = (es, r)"
  shows "(\<forall>pre x post. es = pre @ GetBranches x # post \<longrightarrow>
            (\<exists>pre' k. pre = pre' @ [DateNow k] \<and> js_less (k - now c) (times_1000 (timeout c))))
       \<and> (\<forall>pre k post. es = pre @ DateNow k # post
                       \<and> \<not> js_less (k - now c) (times_1000 (timeout c)) \<longrightarrow>
            post = [SetFailed (''Timeout waiting for branch '' @ branchName c @ '' to be created'')]
          \<and> r = Returned)
       \<and> (r = Returned \<longrightarrow>
            (\<exists>es'. es = es' @ [Info ''success''])
          \<or> (\<exists>es' k. es = es' @ [DateNow k,
                             SetFailed (''Timeout waiting for branch '' @ branchName c @ '' to be created'')]
                     \<and> \<not> js_less (k - now c) (times_1000 (timeout c))))"
proof -
  have starts: "\<exists>pre' k. pre = pre' @ [DateNow k] \<and> js_less (k - now c) (times_1000 (timeout c))"
    if "es = pre @ GetBranches x # post" for pre x post
    using pass_starts_under_guard [OF assms that] .
  have stops: "post = [SetFailed (''Timeout waiting for branch '' @ branchName c @ '' to be created'')]
          \<and> r = Returned"
    if "es = pre @ DateNow k # post" "\<not> js_less (k - now c) (times_1000 (timeout c))" for pre k post
    using after_late_clock_read [OF assms that] by (simp add: timeout_message_def)
  have ends: "(\<exists>es'. es = es' @ [Info ''success''])
          \<or> (\<exists>es' k. es = es' @ [DateNow k,
                             SetFailed (''Timeout waiting for branch '' @ branchName c @ '' to be created'')]
                     \<and> \<not> js_less (k - now c) (times_1000 (timeout c)))"
    if "r = Returned"
    using how_the_loop_returns [of c ticks es] assms that by (simp add: timeout_message_def)
  from starts stops ends show ?thesis by blast
qed

theorem timeout_guard_witness:
  "wait_loop (example_ctx True) [example_tick 10 ''CREATING_PROJECT'', example_tick 5000 ''MIGRATIONS_PASSED''] =
     ([DateNow 10, GetBranches ''parent'',
       Info ''Waiting for branch feat-x to be created. Status=CREATING_PROJECT'', Sleep 2900,
       DateNow 5000, SetFailed ''Timeout waiting for branch feat-x to be created''], Returned)
   \<and> js_less (10 - now (example_ctx True)) (times_1000 (timeout (example_ctx True)))
   \<and> \<not> js_less (5000 - now (example_ctx True)) (times_1000 (timeout (example_ctx True)))"
proof -
  let ?es = "[DateNow 10, GetBranches ''parent'',
       Info ''Waiting for branch feat-x to be created. Status=CREATING_PROJECT'', Sleep 2900,
       DateNow 5000, SetFailed ''Timeout waiting for branch feat-x to be created'']"
  have h: "wait_loop (example_ctx True) [example_tick 10 ''CREATING_PROJECT'', example_tick 5000 ''MIGRATIONS_PASSED'']
      = (?es, Returned)"
    by (simp add: iteration_cases emit_def ready_def waiting_def timeout_message_def example_defs)
  have late: "\<not> js_less (5000 - now (example_ctx True)) (times_1000 (timeout (example_ctx True)))"
    by (simp add: example_defs)
  have split: "?es = [DateNow 10] @ GetBranches ''parent'' #
       [Info ''Waiting for branch feat-x to be created. Status=CREATING_PROJECT'', Sleep 2900,
       DateNow 5000, SetFailed ''Timeout waiting for branch feat-x to be created'']"
    by simp
  from timeout_guard [OF h] split
  have "\<exists>pre' k. [DateNow 10] = pre' @ [DateNow k]
          \<and> js_less (k - now (example_ctx True)) (times_1000 (timeout (example_ctx True)))"
    by blast
  then have "js_less (10 - now (example_ctx True)) (times_1000 (timeout (example_ctx True)))"
    by auto
  with h late show ?thesis by simp
qed

section \<open>Skipped passes of the publishing phase\<close>

text \<open>
  Claim C8, as amended. On a ready tick, when the credential fetch takes the transient
  path (status 429 or at least 500) or resolves to \<open>null\<close>, the rest of the pass is
  skipped after the warning \<open>Api keys not found\<close>: nothing is published and the loop goes
  on with the next tick, exactly as it does for a transient or \<open>null\<close> detail result (whose
  warning is \<open>Branch details not found\<close>). A credential result that is an array without
  entries is not skipped: the pass publishes every output but the \<open>_key\<close> ones and ends
  in success.
\<close>

theorem credential_fetch_skip:
  assumes "branches_resp t = Inr branches"
    and "find (\<lambda>b. name b = JStr (branchName c)) branches = Some b"
    and "ready (waitForMigrations c) (Some b)"
  shows "(details_resp t = Inr (Some d) \<and> keys_resp t = Inl err \<and> transient err \<longrightarrow>
            iteration c t =
              ([GetBranches (sbRef c),
                Info (''Branch '' @ branchName c @ '' found, status: '' @ toString (status b)),
                GetBranchDetails (branch_id b), GetProjectApiKeys (project_ref b),
                Warning (''Error fetching api keys: '' @ err_text err),
                Warning ''Api keys not found''], Continue))
       \<and> (details_resp t = Inr (Some d) \<and> keys_resp t = Inr None \<longrightarrow>
            iteration c t =
              ([GetBranches (sbRef c),
                Info (''Branch '' @ branchName c @ '' found, status: '' @ toString (status b)),
                GetBranchDetails (branch_id b), GetProjectApiKeys (project_ref b),
                Warning ''Api keys not found''], Continue))
       \<and> (details_resp t = Inl err \<and> transient err \<longrightarrow>
            iteration c t =
              ([GetBranches (sbRef c),
                Info (''Branch '' @ branchName c @ '' found, status: '' @ toString (status b)),
                GetBranchDetails (branch_id b),
                Warning (''Error fetching branch details: '' @ err_text err),
                Warning ''Branch details not found''], Continue))
       \<and> (details_resp t = Inr None \<longrightarrow>
            iteration c t =
              ([GetBranches (sbRef c),
                Info (''Branch '' @ branchName c @ '' found, status: '' @ toString (status b)),
                GetBranchDetails (branch_id b),
                Warning ''Branch details not found''], Continue))
       \<and> (details_resp t = Inr (Some d) \<and> keys_resp t = Inr (Some []) \<longrightarrow>
            snd (iteration c t) = Return
          \<and> outputs (fst (iteration c t)) =
              outputs (concat (map (publish_branch_key b) branchKeys))
              @ outputs (concat (map (publish_detail_key d) branchDetailsKeys))
              @ [(''api_url'', ''https://'' @ toString (ref d) @ ''.supabase.co/rest/v1''),
                 (''graphql_url'', ''https://'' @ toString (ref d) @ ''.supabase.co/graphql/v1'')])
       \<and> (snd (iteration c t) = Continue \<and> js_less (clock t - now c) (times_1000 (timeout c)) \<longrightarrow>
            outputs (fst (iteration c t)) = []
          \<and> wait_loop c (t # ts) = emit (DateNow (clock t) # fst (iteration c t)) (wait_loop c ts))"
proof -
  have it: "iteration c t = emit [GetBranches (sbRef c)] (fetch_details c t b)"
    using assms by (simp add: iteration_cases)
  have a: "details_resp t = Inr (Some d) \<Longrightarrow> keys_resp t = Inl err \<Longrightarrow> transient err \<Longrightarrow>
            iteration c t =
              ([GetBranches (sbRef c),
                Info (''Branch '' @ branchName c @ '' found, status: '' @ toString (status b)),
                GetBranchDetails (branch_id b), GetProjectApiKeys (project_ref b),
                Warning (''Error fetching api keys: '' @ err_text err),
                Warning ''Api keys not found''], Continue)"
    by (simp add: it fetch_details_cases fetch_keys_cases emit_def)
  have b: "details_resp t = Inr (Some d) \<Longrightarrow> keys_resp t = Inr None \<Longrightarrow>
            iteration c t =
              ([GetBranches (sbRef c),
                Info (''Branch '' @ branchName c @ '' found, status: '' @ toString (status b)),
                GetBranchDetails (branch_id b), GetProjectApiKeys (project_ref b),
                Warning ''Api keys not found''], Continue)"
    by (simp add: it fetch_details_cases fetch_keys_cases emit_def)
  have c: "details_resp t = Inl err \<Longrightarrow> transient err \<Longrightarrow>
            iteration c t =
              ([GetBranches (sbRef c),
                Info (''Branch '' @ branchName c @ '' found, status: '' @ toString (status b)),
                GetBranchDetails (branch_id b),
                Warning (''Error fetching branch details: '' @ err_text err),
                Warning ''Branch details not found''], Continue)"
    by (simp add: it fetch_details_cases emit_def)
  have d: "details_resp t = Inr None \<Longrightarrow>
            iteration c t =
              ([GetBranches (sbRef c),
                Info (''Branch '' @ branchName c @ '' found, status: '' @ toString (status b)),
                GetBranchDetails (branch_id b),
                Warning ''Branch details not found''], Continue)"
    by (simp add: it fetch_details_cases emit_def)
  have e: "details_resp t = Inr (Some d) \<Longrightarrow> keys_resp t = Inr (Some []) \<Longrightarrow>
            snd (iteration c t) = Return
          \<and> outputs (fst (iteration c t)) =
              outputs (concat (map (publish_branch_key b) branchKeys))
              @ outputs (concat (map (publish_detail_key d) branchDetailsKeys))
              @ [(''api_url'', ''https://'' @ toString (ref d) @ ''.supabase.co/rest/v1''),
                 (''graphql_url'', ''https://'' @ toString (ref d) @ ''.supabase.co/graphql/v1'')]"
    by (simp add: it fetch_details_cases fetch_keys_cases emit_def outputs_Cons outputs_publish)
  have f: "snd (iteration c t) = Continue \<Longrightarrow> outputs (fst (iteration c t)) = []"
    by (auto simp: it fetch_details_cases fetch_keys_cases emit_def outputs_Cons
          split: sum.splits option.splits if_splits)
  have g: "snd (iteration c t) = Continue \<Longrightarrow> js_less (clock t - now c) (times_1000 (timeout c)) \<Longrightarrow>
            wait_loop c (t # ts) = emit (DateNow (clock t) # fst (iteration c t)) (wait_loop c ts)"
    by (cases "iteration c t") (simp add: emit_def)
  from a b c d e f g show ?thesis by blast
qed

theorem credential_fetch_skip_witness:
  "wait_loop (example_ctx False)
     [(example_tick 10 ''CREATING_PROJECT'')
        \<lparr>keys_resp := Inl (ApiError (Some 429) ''ApiError: Too Many Requests'')\<rparr>] =
     ([DateNow 10, GetBranches ''parent'', Info ''Branch feat-x found, status: CREATING_PROJECT'',
       GetBranchDetails (JStr ''b-1''), GetProjectApiKeys (JStr ''prj''),
       Warning ''Error fetching api keys: ApiError: Too Many Requests'',
       Warning ''Api keys not found''], Pending)
   \<and> iteration (example_ctx False) ((example_tick 10 ''CREATING_PROJECT'')\<lparr>keys_resp := Inr None\<rparr>) =
     ([GetBranches ''parent'', Info ''Branch feat-x found, status: CREATING_PROJECT'',
       GetBranchDetails (JStr ''b-1''), GetProjectApiKeys (JStr ''prj''),
       Warning ''Api keys not found''], Continue)
   \<and> iteration (example_ctx False)
       ((example_tick 10 ''CREATING_PROJECT'')
          \<lparr>details_resp := Inl (ApiError (Some 502) ''ApiError: Bad Gateway'')\<rparr>) =
     ([GetBranches ''parent'', Info ''Branch feat-x found, status: CREATING_PROJECT'',
       GetBranchDetails (JStr ''b-1''),
       Warning ''Error fetching branch details: ApiError: Bad Gateway'',
       Warning ''Branch details not found''], Continue)
   \<and> iteration (example_ctx False) ((example_tick 10 ''CREATING_PROJECT'')\<lparr>details_resp := Inr None\<rparr>) =
     ([GetBranches ''parent'', Info ''Branch feat-x found, status: CREATING_PROJECT'',
       GetBranchDetails (JStr ''b-1''), Warning ''Branch details not found''], Continue)
   \<and> snd (iteration (example_ctx False) ((example_tick 10 ''CREATING_PROJECT'')\<lparr>keys_resp := Inr (Some [])\<rparr>))
       = Return"
proof -
  let ?c = "example_ctx False" and ?b = "example_branch ''CREATING_PROJECT''"
  let ?t = "example_tick 10 ''CREATING_PROJECT''"
  let ?e429 = "ApiError (Some 429) ''ApiError: Too Many Requests''"
  let ?e502 = "ApiError (Some 502) ''ApiError: Bad Gateway''"
  have h1: "branches_resp (?t\<lparr>keys_resp := k\<rparr>) = Inr [?b]"
    "branches_resp (?t\<lparr>details_resp := d\<rparr>) = Inr [?b]" for k d
    by (simp_all add: example_defs)
  have h2: "find (\<lambda>b. name b = JStr (branchName ?c)) [?b] = Some ?b"
    and h3: "ready (waitForMigrations ?c) (Some ?b)"
    by (simp_all add: example_defs ready_def)
  have resp: "details_resp (?t\<lparr>keys_resp := k\<rparr>) = Inr (Some example_details)"
    "keys_resp (?t\<lparr>keys_resp := k\<rparr>) = k" "details_resp (?t\<lparr>details_resp := d\<rparr>) = d"
    "transient ?e429" "transient ?e502"
    "js_less (clock (?t\<lparr>keys_resp := k\<rparr>) - now ?c) (times_1000 (timeout ?c))" for k d
    by (simp_all add: example_defs transient_def)
  have vals: "branchName ?c = ''feat-x''" "sbRef ?c = ''parent''"
    "clock (?t\<lparr>keys_resp := k\<rparr>) = 10" "status ?b = JStr ''CREATING_PROJECT''"
    "branch_id ?b = JStr ''b-1''" "project_ref ?b = JStr ''prj''" for k
    by (simp_all add: example_defs)
  show ?thesis
    using resp
      credential_fetch_skip [OF h1(1) h2 h3, of "Inl ?e429" example_details ?e429 "[]"]
      credential_fetch_skip [OF h1(1) h2 h3, of "Inr None" example_details ?e429 "[]"]
      credential_fetch_skip [OF h1(2) h2 h3, of "Inl ?e502" example_details ?e502 "[]"]
      credential_fetch_skip [OF h1(2) h2 h3, of "Inr None" example_details ?e502 "[]"]
      credential_fetch_skip [OF h1(1) h2 h3, of "Inr (Some [])" example_details ?e429 "[]"]
    by (simp add: vals emit_def)
qed

text \<open>
  Claim C8 as stated fails for a credential result with no entries: an empty array is
  truthy, so the test \<open>!apiKeys\<close> lets the pass through and it publishes.
\<close>

theorem empty_credentials_counterexample:
  "keys_resp ((example_tick 10 ''CREATING_PROJECT'')\<lparr>keys_resp := Inr (Some [])\<rparr>) = Inr (Some [])
   \<and> snd (iteration (example_ctx False) ((example_tick 10 ''CREATING_PROJECT'')\<lparr>keys_resp := Inr (Some [])\<rparr>)) = Return
   \<and> outputs (fst (iteration (example_ctx False) ((example_tick 10 ''CREATING_PROJECT'')\<lparr>keys_resp := Inr (Some [])\<rparr>))) =
       [(''id'', ''b-1''), (''name'', ''feat-x''), (''project_ref'', ''prj''),
        (''parent_project_ref'', ''parent''), (''git_branch'', ''feat-x''), (''pr_number'', ''7''),
        (''status'', ''CREATING_PROJECT''), (''created_at'', ''2024-01-01''),
        (''db_host'', ''db.prj''), (''db_port'', ''5432''), (''db_user'', ''postgres''),
        (''db_pass'', ''pw''), (''api_url'', ''https://prj.supabase.co/rest/v1''),
        (''graphql_url'', ''https://prj.supabase.co/graphql/v1'')]"
  by (simp add: iteration_cases fetch_details_cases fetch_keys_cases emit_def ready_def example_defs
        outputs_Cons publish_defs)

section \<open>Validation of the timeout\<close>

lemma example_branch_name: "find_branch_name (example_inputs secs) = Some ''feat-x''"
  by (simp add: find_branch_name_def branch_of_ref_def example_defs)

text \<open>
  Claim C9, as amended. When the timeout input parses to \<open>NaN\<close> the run fails with a
  configuration error (the missing-token or missing-project error if one of those inputs
  is empty, \<open>Timeout is not a valid number\<close> otherwise) and makes no remote call. A
  timeout that parses to a negative number is not a configuration error: with a branch
  name and a clock that does not run backwards, the loop body never runs, no remote call is
  made and the run reports the timeout failure.
\<close>

theorem timeout_validation:
  "(isNaN (timeout_in inp) \<longrightarrow>
      main inp ticks =
        ([SetSecret (sbToken_in inp), SetSecret (sbRef_in inp),
          SetFailed (if sbToken_in inp = [] then ''Supabase access token is not defined''
                     else if sbRef_in inp = [] then ''Supabase project id is not defined''
                     else ''Timeout is not a valid number'')], Returned))
   \<and> ((timeout_in inp = NegInfinity \<or> (\<exists>r. timeout_in inp = Finite r \<and> r < 0))
        \<and> sbToken_in inp \<noteq> [] \<and> sbRef_in inp \<noteq> []
        \<and> find_branch_name inp = Some bn \<and> bn \<noteq> [] \<and> start inp \<le> clock t \<longrightarrow>
      main inp (t # ts) =
        ([SetSecret (sbToken_in inp), SetSecret (sbRef_in inp), ConsoleLog bn,
          Info (''Current Git branch: '' @ bn), DateNow (start inp), DateNow (clock t),
          SetFailed (''Timeout waiting for branch '' @ bn @ '' to be created'')], Returned))"
proof -
  have nan: "isNaN (timeout_in inp) \<Longrightarrow>
      main inp ticks =
        ([SetSecret (sbToken_in inp), SetSecret (sbRef_in inp),
          SetFailed (if sbToken_in inp = [] then ''Supabase access token is not defined''
                     else if sbRef_in inp = [] then ''Supabase project id is not defined''
                     else ''Timeout is not a valid number'')], Returned)"
    by (simp add: main_def emit_def)
  have guard: "\<not> js_less (clock t - start inp) (times_1000 (timeout_in inp))"
    if "timeout_in inp = NegInfinity \<or> (\<exists>r. timeout_in inp = Finite r \<and> r < 0)"
      and "start inp \<le> clock t"
  proof -
    from that(1) show ?thesis
    proof
      assume "timeout_in inp = NegInfinity"
      then show ?thesis by simp
    next
      assume "\<exists>r. timeout_in inp = Finite r \<and> r < 0"
      then obtain r where r: "timeout_in inp = Finite r" "r < 0" by blast
      have "r * 1000 < 0" using r(2) by (simp add: mult_less_0_iff)
      moreover have "(0::rat) \<le> of_int (clock t - start inp)" using that(2) by simp
      ultimately show ?thesis using r(1) by simp
    qed
  qed
  have neg: "main inp (t # ts) =
        ([SetSecret (sbToken_in inp), SetSecret (sbRef_in inp), ConsoleLog bn,
          Info (''Current Git branch: '' @ bn), DateNow (start inp), DateNow (clock t),
          SetFailed (''Timeout waiting for branch '' @ bn @ '' to be created'')], Returned)"
    if "timeout_in inp = NegInfinity \<or> (\<exists>r. timeout_in inp = Finite r \<and> r < 0)"
      and "sbToken_in inp \<noteq> []" "sbRef_in inp \<noteq> []" "find_branch_name inp = Some bn" "bn \<noteq> []"
      and "start inp \<le> clock t"
  proof -
    have "\<not> isNaN (timeout_in inp)" using that(1) by auto
    then show ?thesis
      using guard [OF that(1) that(6)] that(2-5)
      by (simp add: main_def emit_def timeout_message_def)
  qed
  from nan neg show ?thesis by blast
qed

theorem timeout_validation_witness:
  "isNaN (timeout_in (example_inputs NaN))
   \<and> main (example_inputs NaN) [example_tick 0 ''CREATING_PROJECT''] =
       ([SetSecret ''tok'', SetSecret ''parent'', SetFailed ''Timeout is not a valid number''], Returned)
   \<and> main (example_inputs (Finite (- 30))) [example_tick 0 ''CREATING_PROJECT''] =
       ([SetSecret ''tok'', SetSecret ''parent'', ConsoleLog ''feat-x'',
         Info ''Current Git branch: feat-x'', DateNow 0, DateNow 0,
         SetFailed ''Timeout waiting for branch feat-x to be created''], Returned)"
proof -
  have h: "isNaN (timeout_in (example_inputs NaN))"
    by (simp add: example_defs)
  have n: "timeout_in (example_inputs (Finite (- 30))) = Finite (- 30)"
    "sbToken_in (example_inputs (Finite (- 30))) \<noteq> []" "sbRef_in (example_inputs (Finite (- 30))) \<noteq> []"
    "start (example_inputs (Finite (- 30))) \<le> clock (example_tick 0 ''CREATING_PROJECT'')"
    by (simp_all add: example_defs)
  have vals: "sbToken_in (example_inputs x) = ''tok''" "sbRef_in (example_inputs x) = ''parent''"
    "start (example_inputs x) = 0" "clock (example_tick 0 ''CREATING_PROJECT'') = 0" for x
    by (simp_all add: example_defs)
  show ?thesis
    using h n example_branch_name [of "Finite (- 30)"]
      timeout_validation [where inp = "example_inputs NaN" and ticks = "[example_tick 0 ''CREATING_PROJECT'']"]
      timeout_validation [where inp = "example_inputs (Finite (- 30))" and bn = "''feat-x''"
        and t = "example_tick 0 ''CREATING_PROJECT''" and ts = "[]"]
    by (simp add: vals)
qed

text \<open>
  Claim C9 as stated fails for the timeout input \<open>-5\<close>: it passes validation, and the
  failure reported is the timeout of the wait, not a configuration error.
\<close>

theorem negative_timeout_counterexample:
  "timeout_in (example_inputs (Finite (- 5))) = Finite (- 5)
   \<and> run (example_inputs (Finite (- 5))) [example_tick 0 ''CREATING_PROJECT''] =
       [SetSecret ''tok'', SetSecret ''parent'', ConsoleLog ''feat-x'',
        Info ''Current Git branch: feat-x'', DateNow 0, DateNow 0,
        SetFailed ''Timeout waiting for branch feat-x to be created'']
   \<and> SetFailed ''Timeout is not a valid number''
        \<notin> set (run (example_inputs (Finite (- 5))) [example_tick 0 ''CREATING_PROJECT''])"
  by (simp add: run_def main_def emit_def example_branch_name timeout_message_def)
     (simp add: example_defs)

section \<open>The delay between two ticks\<close>

text \<open>
  Claim C4 says that every pass that does not complete publishing emits the progress
  notice and then suspends for 2900 ms, on every path alike. The passes without a
  candidate or with a status that is not ready do so (see the readiness theorem). The two
  skip paths of the publishing phase do not: they end in \<open>continue\<close>, which jumps over
  lines 170 to 173. At a run whose detail fetch answers 500 on the first tick and whose
  credential fetch answers 429 on the second, the trace shows the warnings followed at
  once by the next clock read and listing call, with neither the progress notice nor the
  suspension between them.
\<close>

theorem skipped_fetch_retries_without_delay:
  "wait_loop (example_ctx False)
     [(example_tick 10 ''CREATING_PROJECT'')
        \<lparr>details_resp := Inl (ApiError (Some 500) ''ApiError: Internal Server Error'')\<rparr>,
      (example_tick 11 ''CREATING_PROJECT'')
        \<lparr>keys_resp := Inl (ApiError (Some 429) ''ApiError: Too Many Requests'')\<rparr>,
      example_tick 12 ''CREATING_PROJECT''] =
     ([DateNow 10, GetBranches ''parent'', Info ''Branch feat-x found, status: CREATING_PROJECT'',
       GetBranchDetails (JStr ''b-1''),
       Warning ''Error fetching branch details: ApiError: Internal Server Error'',
       Warning ''Branch details not found'',
       DateNow 11, GetBranches ''parent'', Info ''Branch feat-x found, status: CREATING_PROJECT'',
       GetBranchDetails (JStr ''b-1''), GetProjectApiKeys (JStr ''prj''),
       Warning ''Error fetching api keys: ApiError: Too Many Requests'',
       Warning ''Api keys not found'',
       DateNow 12, GetBranches ''parent'', Info ''Branch feat-x found, status: CREATING_PROJECT'',
       GetBranchDetails (JStr ''b-1''), GetProjectApiKeys (JStr ''prj''),
       SetSecret ''k1'', SetOutput ''anon_key'' ''k1'', SetSecret ''b-1'',
   SetOutput ''id'' ''b-1'', SetSecret ''feat-x'',
   SetOutput ''name'' ''feat-x'', SetSecret ''prj'',
   SetOutput ''project_ref'' ''prj'', SetSecret ''parent'',
   SetOutput ''parent_project_ref'' ''parent'', SetSecret ''feat-x'',
   SetOutput ''git_branch'' ''feat-x'', SetSecret ''7'',
   SetOutput ''pr_number'' ''7'', SetSecret ''CREATING_PROJECT'',
   SetOutput ''status'' ''CREATING_PROJECT'', SetSecret ''2024-01-01'',
   SetOutput ''created_at'' ''2024-01-01'', SetSecret ''db.prj'',
   SetOutput ''db_host'' ''db.prj'', SetSecret ''5432'',
   SetOutput ''db_port'' ''5432'', SetSecret ''postgres'',
   SetOutput ''db_user'' ''postgres'', SetSecret ''pw'',
   SetOutput ''db_pass'' ''pw'',
   SetOutput ''api_url'' ''https://prj.supabase.co/rest/v1'',
   SetOutput ''graphql_url'' ''https://prj.supabase.co/graphql/v1'',
   Info ''success''], Returned)"
  by (simp add: iteration_cases fetch_details_cases fetch_keys_cases emit_def ready_def transient_def
        example_defs publish_defs)

section \<open>What is published under which name\<close>

lemma values_of_Nil [simp]: "values_of key [] = []"
  by (simp add: values_of_def)

lemma values_of_append [simp]: "values_of key (xs @ ys) = values_of key xs @ values_of key ys"
  by (simp add: values_of_def)







lemma fixed_name_not_url:
  "k \<in> set branchKeys \<union> set branchDetailsKeys \<Longrightarrow> k \<noteq> ''api_url'' \<and> k \<noteq> ''graphql_url''"
  by (auto simp: branchKeys_def branchDetailsKeys_def)


lemma renamed_rev: "rev (k @ ''branch_status'') = ''sutats_hcnarb'' @ rev k"
  by simp


lemma fixed_name_not_renamed:
  assumes "k \<in> set branchKeys \<union> set branchDetailsKeys \<union> {''api_url'', ''graphql_url''}"
  shows "k' @ ''branch_status'' \<noteq> k"
proof
  assume "k' @ ''branch_status'' = k"
  then have "rev k = ''sutats_hcnarb'' @ rev k'" using renamed_rev by blast
  with assms show False by (auto simp: branchKeys_def branchDetailsKeys_def)
qed















section \<open>The renaming test\<close>









section \<open>Secrets are masked before they are published\<close>

lemma masked_block_Nil [simp]: "masked_block []"
  by (simp add: masked_block_def)

lemma masked_block_single: "\<not> is_output e \<Longrightarrow> \<not> is_secret e \<Longrightarrow> masked_block [e]"
  by (simp add: masked_block_def)

lemma masked_block_pair:
  "k \<noteq> ''api_url'' \<Longrightarrow> k \<noteq> ''graphql_url'' \<Longrightarrow> masked_block [SetSecret v, SetOutput k v]"
  by (simp add: masked_block_def masked_step_def is_output_def is_secret_def)

lemma masked_step_not_output: "\<not> is_output e' \<Longrightarrow> masked_step e e'"
  by (cases e') (simp_all add: masked_step_def is_output_def)

lemma masked_block_append:
  assumes "masked_block xs" and "masked_block ys"
  shows "masked_block (xs @ ys)"
proof (cases "xs = [] \<or> ys = []")
  case True
  with assms show ?thesis by auto
next
  case False
  with assms have "masked_step (last xs) (hd ys)"
    by (intro masked_step_not_output) (simp add: masked_block_def)
  with assms False show ?thesis
    by (simp add: masked_block_def successively_append_iff)
qed

lemma masked_block_Cons:
  "\<not> is_output e \<Longrightarrow> \<not> is_secret e \<Longrightarrow> masked_block es \<Longrightarrow> masked_block (e # es)"
  using masked_block_append [OF masked_block_single, of e es] by simp

lemma masked_block_concat:
  "(\<And>x. x \<in> set xs \<Longrightarrow> masked_block (f x)) \<Longrightarrow> masked_block (concat (map f xs))"
  by (induction xs) (simp_all add: masked_block_append)

lemma masked_block_urls:
  assumes "masked_block xs" and "xs \<noteq> []"
  shows "masked_block (xs @ [SetOutput ''api_url'' a, SetOutput ''graphql_url'' g, Info ''success''])"
  using assms
  by (simp add: masked_block_def successively_append_iff masked_step_def is_output_def is_secret_def)

lemma key_output_not_url: "n @ ''_key'' \<noteq> ''api_url'' \<and> n @ ''_key'' \<noteq> ''graphql_url''"
proof -
  have "rev (n @ ''_key'') \<noteq> rev ''api_url''" "rev (n @ ''_key'') \<noteq> rev ''graphql_url''"
    by simp_all
  then show ?thesis by (metis)
qed

lemma masked_api_key: "masked_block (publish_api_key k)"
  using key_output_not_url [of "key_name k"]
  by (simp add: publish_api_key_def masked_block_pair)

lemma masked_branch_key: "k \<in> set branchKeys \<Longrightarrow> masked_block (publish_branch_key b k)"
  using fixed_name_not_url [of k] fixed_name_not_renamed [of "''api_url''" k]
    fixed_name_not_renamed [of "''graphql_url''" k]
  by (simp add: publish_branch_key_def Let_def masked_block_pair)

lemma masked_detail_key: "k \<in> set branchDetailsKeys \<Longrightarrow> masked_block (publish_detail_key d k)"
  using fixed_name_not_url [of k]
  by (simp add: publish_detail_key_def Let_def masked_block_pair)

lemma masked_publish:
  assumes "masked_block pre" and "pre \<noteq> []"
  shows "masked_block (pre @ publish b d ks)"
proof -
  let ?sensitive = "concat (map publish_api_key ks)
     @ concat (map (publish_branch_key b) branchKeys)
     @ concat (map (publish_detail_key d) branchDetailsKeys)"
  have "masked_block ?sensitive"
    by (intro masked_block_append masked_block_concat masked_api_key masked_branch_key
          masked_detail_key)
  with assms(1) have "masked_block (pre @ ?sensitive)"
    by (rule masked_block_append)
  moreover have "pre @ ?sensitive \<noteq> []" using assms(2) by simp
  ultimately have "masked_block ((pre @ ?sensitive)
      @ [SetOutput ''api_url'' (''https://'' @ toString (ref d) @ ''.supabase.co/rest/v1''),
         SetOutput ''graphql_url'' (''https://'' @ toString (ref d) @ ''.supabase.co/graphql/v1''),
         Info ''success''])"
    by (rule masked_block_urls)
  then show ?thesis by (simp add: publish_def)
qed

lemma masked_iteration: "masked_block (fst (iteration c t))"
proof -
  have pub: "masked_block (GetBranches r # Info m # GetBranchDetails x # GetProjectApiKeys y # publish b d ks)"
    for r m x y b d ks
    using masked_publish [of "[GetBranches r, Info m, GetBranchDetails x, GetProjectApiKeys y]" b d ks]
    by (simp add: masked_block_Cons is_output_def is_secret_def)
  show ?thesis
    by (auto simp: iteration_cases fetch_details_cases fetch_keys_cases emit_def waiting_def pub
          masked_block_Cons is_output_def is_secret_def
        split: sum.splits option.splits if_splits)
qed

lemma masked_wait_loop: "masked_block (fst (wait_loop c ticks))"
proof (induction ticks)
  case Nil
  then show ?case by simp
next
  case (Cons t ts)
  have clk: "masked_block [DateNow (clock t)]"
    by (simp add: masked_block_single is_output_def is_secret_def)
  have fail: "masked_block [SetFailed (timeout_message (branchName c))]"
    by (simp add: masked_block_single is_output_def is_secret_def)
  show ?case
    using masked_iteration [of c t] Cons.IH clk fail
    by (cases "iteration c t")
       (auto simp: emit_def intro!: masked_block_append [of "[DateNow (clock t)]", simplified]
          masked_block_append split: step.splits)
qed

lemma masked_main:
  "\<exists>es. fst (main inp ticks) = SetSecret (sbToken_in inp) # SetSecret (sbRef_in inp) # es
        \<and> es \<noteq> [] \<and> masked_block es"
proof -
  have plain: "masked_block [SetFailed m]" "masked_block [ConsoleLog l, SetFailed m]"
    "masked_block [ConsoleLog l, Info i, DateNow n]" for m l i n
    by (simp_all add: masked_block_Cons masked_block_single is_output_def is_secret_def)
  have "masked_block ([ConsoleLog l, Info i, DateNow n] @ fst (wait_loop c ticks))" for l i n c
    using plain(3) masked_wait_loop by (rule masked_block_append)
  then show ?thesis
    using plain by (auto simp: main_def emit_def split: option.splits)
qed

lemma masked_run:
  "\<exists>es. run inp ticks = SetSecret (sbToken_in inp) # SetSecret (sbRef_in inp) # es
        \<and> es \<noteq> [] \<and> masked_block es"
proof -
  from masked_main [of inp ticks]
  obtain es where es: "fst (main inp ticks) = SetSecret (sbToken_in inp) # SetSecret (sbRef_in inp) # es"
    "es \<noteq> []" "masked_block es" by blast
  have handler: "masked_block [ConsoleError e, SetFailed m]" for e m
    by (simp add: masked_block_Cons masked_block_single is_output_def is_secret_def)
  have "masked_block (es @ [ConsoleError e, SetFailed m])" for e m
    using es(3) handler by (rule masked_block_append)
  with es show ?thesis
    by (cases "main inp ticks") (auto simp: run_def split: outcome.splits)
qed


lemma masked_step_run:
  "successively masked_step (run inp ticks) \<and> run inp ticks \<noteq> [] \<and> \<not> is_output (hd (run inp ticks))"
proof -
  from masked_run [of inp ticks]
  obtain es where es: "run inp ticks = SetSecret (sbToken_in inp) # SetSecret (sbRef_in inp) # es"
    "es \<noteq> []" "masked_block es" by blast
  from es(2,3) have "masked_step (SetSecret (sbRef_in inp)) (hd es)" "successively masked_step es"
    by (simp_all add: masked_block_def masked_step_not_output)
  with es(1,2) show ?thesis
    by (simp add: successively_Cons masked_step_def is_output_def)
qed

text \<open>
  Claim C10. In the events of any run, every \<open>setOutput\<close> whose name is not \<open>api_url\<close>
  or \<open>graphql_url\<close> (the credential entries, the summary attributes and the detail
  attributes) comes directly after the \<open>setSecret\<close> call on exactly the value it
  publishes; the outputs \<open>api_url\<close> and \<open>graphql_url\<close> are the only ones that are not
  preceded by a \<open>setSecret\<close> call. (An output named \<open>api_url\<close> or \<open>graphql_url\<close> is
  never one of the masked ones, since those always follow their \<open>setSecret\<close>.)
\<close>

theorem masking_order:
  assumes "i < length (run inp ticks)" and "run inp ticks ! i = SetOutput k v"
  shows "0 < i
       \<and> (k \<noteq> ''api_url'' \<and> k \<noteq> ''graphql_url'' \<longrightarrow> run inp ticks ! (i - 1) = SetSecret v)
       \<and> (k = ''api_url'' \<or> k = ''graphql_url'' \<longrightarrow> (\<forall>s. run inp ticks ! (i - 1) \<noteq> SetSecret s))"
proof -
  from masked_step_run [of inp ticks]
  have succ: "successively masked_step (run inp ticks)"
    and first: "run inp ticks \<noteq> []" "\<not> is_output (hd (run inp ticks))" by simp_all
  have pos: "0 < i"
  proof (rule ccontr)
    assume "\<not> 0 < i"
    with assms(2) first(1) have "hd (run inp ticks) = SetOutput k v"
      by (simp add: hd_conv_nth)
    with first(2) show False by (simp add: is_output_def)
  qed
  then have "Suc (i - 1) < length (run inp ticks)" using assms(1) by simp
  from successively_nth [OF succ this] pos assms(2)
  have "masked_step (run inp ticks ! (i - 1)) (SetOutput k v)" by simp
  then have "(k \<noteq> ''api_url'' \<and> k \<noteq> ''graphql_url'' \<longrightarrow> run inp ticks ! (i - 1) = SetSecret v)
       \<and> (k = ''api_url'' \<or> k = ''graphql_url'' \<longrightarrow> (\<forall>s. run inp ticks ! (i - 1) \<noteq> SetSecret s))"
    by (auto simp: masked_step_def is_secret_def)
  with pos show ?thesis by simp
qed

theorem masking_order_witness:
  "11 < length (run (example_inputs (Finite 5)) [example_tick 10 ''CREATING_PROJECT''])
   \<and> run (example_inputs (Finite 5)) [example_tick 10 ''CREATING_PROJECT''] ! 11 = SetOutput ''anon_key'' ''k1''
   \<and> run (example_inputs (Finite 5)) [example_tick 10 ''CREATING_PROJECT''] ! (11 - 1) = SetSecret ''k1''
   \<and> 36 < length (run (example_inputs (Finite 5)) [example_tick 10 ''CREATING_PROJECT''])
   \<and> run (example_inputs (Finite 5)) [example_tick 10 ''CREATING_PROJECT''] ! 36
       = SetOutput ''api_url'' ''https://prj.supabase.co/rest/v1''
   \<and> run (example_inputs (Finite 5)) [example_tick 10 ''CREATING_PROJECT''] ! (36 - 1)
       = SetOutput ''db_pass'' ''pw''"
proof -
  let ?run = "run (example_inputs (Finite 5)) [example_tick 10 ''CREATING_PROJECT'']"
  have tr: "?run =
     [SetSecret ''tok'', SetSecret ''parent'', ConsoleLog ''feat-x'',
      Info ''Current Git branch: feat-x'', DateNow 0, DateNow 10, GetBranches ''parent'',
      Info ''Branch feat-x found, status: CREATING_PROJECT'',
      GetBranchDetails (JStr ''b-1''), GetProjectApiKeys (JStr ''prj''),
      SetSecret ''k1'', SetOutput ''anon_key'' ''k1'',
      SetSecret ''b-1'', SetOutput ''id'' ''b-1'',
      SetSecret ''feat-x'', SetOutput ''name'' ''feat-x'',
      SetSecret ''prj'', SetOutput ''project_ref'' ''prj'',
      SetSecret ''parent'', SetOutput ''parent_project_ref'' ''parent'',
      SetSecret ''feat-x'', SetOutput ''git_branch'' ''feat-x'',
      SetSecret ''7'', SetOutput ''pr_number'' ''7'',
      SetSecret ''CREATING_PROJECT'', SetOutput ''status'' ''CREATING_PROJECT'',
      SetSecret ''2024-01-01'', SetOutput ''created_at'' ''2024-01-01'',
      SetSecret ''db.prj'', SetOutput ''db_host'' ''db.prj'',
      SetSecret ''5432'', SetOutput ''db_port'' ''5432'',
      SetSecret ''postgres'', SetOutput ''db_user'' ''postgres'',
      SetSecret ''pw'', SetOutput ''db_pass'' ''pw'',
      SetOutput ''api_url'' ''https://prj.supabase.co/rest/v1'',
      SetOutput ''graphql_url'' ''https://prj.supabase.co/graphql/v1'',
      Info ''success'']"
    by (simp add: run_def main_def find_branch_name_def branch_of_ref_def emit_def iteration_cases
          fetch_details_cases fetch_keys_cases ready_def example_defs publish_defs)
  have h1: "11 < length ?run" and h2: "?run ! 11 = SetOutput ''anon_key'' ''k1''"
    and h3: "36 < length ?run" and h4: "?run ! 36 = SetOutput ''api_url'' ''https://prj.supabase.co/rest/v1''"
    by (simp_all add: tr)
  have prev: "?run ! (36 - 1) = SetOutput ''db_pass'' ''pw''"
    by (simp add: tr)
  from masking_order [OF h1 h2] have "?run ! (11 - 1) = SetSecret ''k1''" by simp
  moreover from masking_order [OF h3 h4] have "\<forall>s. ?run ! (36 - 1) \<noteq> SetSecret s" by simp
  ultimately show ?thesis using h1 h2 h3 h4 prev by simp
qed

end
